theory Spec2Isabelle
  imports Complex_Main "HOL-Library.Sublist"
begin

section \<open>Python values, exceptions and the object store\<close>

text \<open>
  The package is Python. Its functions take pandas DataFrames, strings, booleans, integers,
  floats and dictionaries of type \<open>Dict[str, Any]\<close>, and every one of them ends in a
  \<open>raise\<close> or a \<open>return\<close>. The package itself raises two exception classes,
  NotImplementedError and ValueError, each with the message string given to it. Python
  raises a third one, AttributeError, when an attribute is looked up on an object that
  does not have it; it carries the name of that attribute.
\<close>

datatype exn = NotImplementedError string | ValueError string | AttributeError string

text \<open>
  A scalar Python value: a cell of a DataFrame and a value of type \<open>Any\<close> in a keyword
  dictionary. No function of the package computes with a float, so a float is carried as a
  real number.
\<close>

datatype pyval = PyNone | PyBool bool | PyInt int | PyFloat real | PyStr string

type_synonym pydict = "(string \<times> pyval) list"

text \<open>
  A DataFrame has a row index and named columns, in order. DataFrames are mutable objects
  that are passed by reference, so they live in a store and the functions take and return
  references into it. A reference \<open>r\<close> names a DataFrame of the store \<open>s\<close> when
  \<open>r < length s\<close>. Python does not enforce the annotation \<open>pd.DataFrame\<close> of an argument:
  a reference outside the store stands for an argument that is not a DataFrame and has no
  \<open>copy\<close> attribute, such as \<open>None\<close>, a number or a string.
\<close>

record DataFrame =
  index :: "pyval list"
  columns :: "(string \<times> pyval list) list"

type_synonym ref = nat
type_synonym store = "DataFrame list"

definition is_DataFrame :: "store \<Rightarrow> ref \<Rightarrow> bool" where
  "is_DataFrame s r = (r < length s)"

definition column_names :: "DataFrame \<Rightarrow> string list" where
  "column_names d = map fst (columns d)"

text \<open>
  A call runs on a store and ends with an exception (\<open>Inl\<close>) or a returned value
  (\<open>Inr\<close>), together with the store it leaves behind.
\<close>

type_synonym 'a py = "store \<Rightarrow> (exn + 'a) \<times> store"

text \<open>
  \<open>df.copy()\<close> on a DataFrame (deep by default) creates a new object holding a copy of
  the data and of the index of \<open>df\<close>, and leaves \<open>df\<close> alone. On an argument that is
  not a DataFrame the lookup of \<open>copy\<close> fails with AttributeError.
\<close>

definition DataFrame_copy :: "ref \<Rightarrow> ref py" where
  "DataFrame_copy df s =
     (if is_DataFrame s df then (Inr (length s), s @ [s ! df])
      else (Inl (AttributeError ''copy''), s))"

fun raised :: "exn + 'a \<Rightarrow> exn option" where
  "raised (Inl e) = Some e"
| "raised (Inr v) = None"

fun is_NotImplementedError :: "exn option \<Rightarrow> bool" where
  "is_NotImplementedError (Some (NotImplementedError msg)) = True"
| "is_NotImplementedError (Some (ValueError msg)) = False"
| "is_NotImplementedError (Some (AttributeError name)) = False"
| "is_NotImplementedError None = False"

subsection \<open>String formatting\<close>

text \<open>
  \<open>repr\<close> of a string that holds no quote, no backslash and no unprintable character is
  the string between single quotes; \<open>repr\<close> of a list is the \<open>repr\<close> of its elements,
  separated by a comma and a space, between square brackets. An f-string formats a list
  with \<open>str\<close>, which for a list is its \<open>repr\<close>.
\<close>

definition repr_str :: "string \<Rightarrow> string" where
  "repr_str x = CHR 0x27 # x @ [CHR 0x27]"

fun join :: "string \<Rightarrow> string list \<Rightarrow> string" where
  "join sep [] = []"
| "join sep [x] = x"
| "join sep (x # y # ys) = x @ sep @ join sep (y # ys)"

definition repr_list :: "string list \<Rightarrow> string" where
  "repr_list xs = ''['' @ join '', '' (map repr_str xs) @ '']''"

section \<open>Data loading (data/load.py)\<close>

definition load_occupancy :: "string \<Rightarrow> bool \<Rightarrow> ref py" where
  "load_occupancy path parse_dates s =
     (Inl (NotImplementedError ''Implement once raw data format is confirmed''), s)"

definition load_hvac :: "string \<Rightarrow> bool \<Rightarrow> ref py" where
  "load_hvac path parse_dates s =
     (Inl (NotImplementedError ''Implement once raw data format is confirmed''), s)"

definition load_weather :: "string \<Rightarrow> bool \<Rightarrow> ref py" where
  "load_weather path parse_dates s =
     (Inl (NotImplementedError ''Implement once raw data format is confirmed''), s)"

definition load_tou :: "string \<Rightarrow> bool \<Rightarrow> ref py" where
  "load_tou path parse_dates s =
     (Inl (NotImplementedError ''Implement once raw data format is confirmed''), s)"

definition load_space_metadata :: "string \<Rightarrow> ref py" where
  "load_space_metadata path s =
     (Inl (NotImplementedError ''Implement once raw data format is confirmed''), s)"

section \<open>Preprocessing (data/preprocess.py)\<close>

definition merge_occupancy_hvac :: "ref \<Rightarrow> ref \<Rightarrow> string \<Rightarrow> string \<Rightarrow> ref py" where
  "merge_occupancy_hvac occ_df hvac_df freq how s =
     (Inl (NotImplementedError ''Implement merge logic once data schemas are confirmed''), s)"

definition add_weather_features :: "ref \<Rightarrow> ref \<Rightarrow> ref py" where
  "add_weather_features df weather_df s =
     (Inl (NotImplementedError ''Implement weather feature merging''), s)"

definition add_tou_features :: "ref \<Rightarrow> ref \<Rightarrow> ref py" where
  "add_tou_features df tou_df s =
     (Inl (NotImplementedError ''Implement TOU feature merging''), s)"

text \<open>
  \<open>engineer_features\<close> replaces a missing \<open>lag_periods\<close> by its default, copies the
  DataFrame, runs the two branches guarded by the flags, whose bodies are \<open>pass\<close>, and
  returns the copy. An exception of the copy leaves the function at once.
\<close>

definition engineer_features :: "ref \<Rightarrow> bool \<Rightarrow> bool \<Rightarrow> int list option \<Rightarrow> ref py" where
  "engineer_features df include_time_features include_lag_features lag_periods s =
     (let lag_periods = (case lag_periods of None \<Rightarrow> [1, 4, 96] | Some l \<Rightarrow> l)
      in case DataFrame_copy df s of
           (Inl e, s1) \<Rightarrow> (Inl e, s1)
         | (Inr result, s1) \<Rightarrow>
             (let s2 = (if include_time_features then s1 else s1);
                  s3 = (if include_lag_features then s2 else s2)
              in (Inr result, s3)))"

text \<open>
  \<open>compute_opportunity_for_savings\<close> copies the DataFrame and then raises
  NotImplementedError; an exception of the copy comes first.
\<close>

definition compute_opportunity_for_savings ::
    "ref \<Rightarrow> string \<Rightarrow> string \<Rightarrow> string option \<Rightarrow> ref py" where
  "compute_opportunity_for_savings df occupancy_col hvac_state_col energy_col s =
     (case DataFrame_copy df s of
        (Inl e, s1) \<Rightarrow> (Inl e, s1)
      | (Inr result, s1) \<Rightarrow>
          (Inl (NotImplementedError ''Implement opportunity for savings calculation''), s1))"

section \<open>Control optimizer (control/optimizer.py)\<close>

definition compute_savings_and_setpoints ::
    "ref \<Rightarrow> ref \<Rightarrow> ref option \<Rightarrow> pydict option \<Rightarrow> (ref \<times> pydict) py" where
  "compute_savings_and_setpoints occupancy_forecast hvac_baseline tou_rates comfort_constraints s =
     (let comfort_constraints =
            (case comfort_constraints of
               None \<Rightarrow> [(''min_temp'', PyInt 60), (''max_temp'', PyInt 85),
                         (''pre_condition_time'', PyInt 30), (''occupancy_threshold'', PyInt 0)]
             | Some c \<Rightarrow> c)
      in (Inl (NotImplementedError ''Implement setpoint optimization and savings calculation''), s))"

definition estimate_savings_potential ::
    "ref \<Rightarrow> string \<Rightarrow> string \<Rightarrow> string \<Rightarrow> string option \<Rightarrow> pydict py" where
  "estimate_savings_potential historical_df occupancy_col hvac_on_col energy_col tou_rate_col s =
     (Inl (NotImplementedError ''Implement historical savings potential analysis''), s)"

definition valid_policies :: "string list" where
  "valid_policies = [''occupancy_setback'', ''predictive_setback'', ''optimal_schedule'']"

definition simulate_control_policy ::
    "ref \<Rightarrow> string \<Rightarrow> pydict option \<Rightarrow> (ref \<times> pydict) py" where
  "simulate_control_policy historical_df policy policy_params s =
     (if policy \<notin> set valid_policies
      then (Inl (ValueError (''Policy must be one of '' @ repr_list valid_policies)), s)
      else (Inl (NotImplementedError ''Implement control policy simulation''), s))"

section \<open>Forecasting models (models/prophet_baseline.py, models/transformer_baseline.py)\<close>

text \<open>
  An instance of a model class is a record of its attributes. The attribute \<open>model\<close>
  holds the fitted third-party model or \<open>None\<close>; \<open>'m\<close> is the type of that third-party
  object, which the package never builds. A method takes the instance and returns the outcome
  of the call together with the instance as the call leaves it. DataFrame arguments are
  references; no method looks at the store.
\<close>

record 'm ProphetOccupancyModel =
  zone_id :: "string option"
  freq :: string
  prophet_kwargs :: pydict
  model :: "'m option"

type_synonym ('m, 'a) prophet_method =
  "'m ProphetOccupancyModel \<Rightarrow> (exn + 'a) \<times> 'm ProphetOccupancyModel"

definition ProphetOccupancyModel_init ::
    "string option \<Rightarrow> string \<Rightarrow> pydict \<Rightarrow> 'm ProphetOccupancyModel" where
  "ProphetOccupancyModel_init zone_id' freq' prophet_kwargs' =
     \<lparr>zone_id = zone_id', freq = freq', prophet_kwargs = prophet_kwargs', model = None\<rparr>"

definition ProphetOccupancyModel_fit :: "ref \<Rightarrow> ('m, unit) prophet_method" where
  "ProphetOccupancyModel_fit df self =
     (Inl (NotImplementedError ''Implement Prophet model fitting''), self)"

definition ProphetOccupancyModel_predict :: "int \<Rightarrow> bool \<Rightarrow> ('m, ref) prophet_method" where
  "ProphetOccupancyModel_predict periods include_history self =
     (if model self = None
      then (Inl (ValueError ''Model must be fitted before prediction''), self)
      else (Inl (NotImplementedError ''Implement Prophet prediction''), self))"

definition ProphetOccupancyModel_evaluate ::
    "ref \<Rightarrow> string list option \<Rightarrow> ('m, pydict) prophet_method" where
  "ProphetOccupancyModel_evaluate test_df metrics self =
     (let metrics = (case metrics of None \<Rightarrow> [''mae'', ''rmse'', ''mape''] | Some m \<Rightarrow> m)
      in (Inl (NotImplementedError ''Implement model evaluation''), self))"

text \<open>The methods of \<open>ProphetOccupancyModel\<close> that a caller can invoke on an instance.\<close>

datatype prophet_call =
  Prophet_fit ref
| Prophet_predict int bool
| Prophet_evaluate ref "string list option"

fun prophet_raised :: "prophet_call \<Rightarrow> 'm ProphetOccupancyModel \<Rightarrow> exn option" where
  "prophet_raised (Prophet_fit df) self = raised (fst (ProphetOccupancyModel_fit df self))"
| "prophet_raised (Prophet_predict periods include_history) self =
     raised (fst (ProphetOccupancyModel_predict periods include_history self))"
| "prophet_raised (Prophet_evaluate test_df metrics) self =
     raised (fst (ProphetOccupancyModel_evaluate test_df metrics self))"

fun prophet_after :: "'m ProphetOccupancyModel \<Rightarrow> prophet_call \<Rightarrow> 'm ProphetOccupancyModel" where
  "prophet_after self (Prophet_fit df) = snd (ProphetOccupancyModel_fit df self)"
| "prophet_after self (Prophet_predict periods include_history) =
     snd (ProphetOccupancyModel_predict periods include_history self)"
| "prophet_after self (Prophet_evaluate test_df metrics) =
     snd (ProphetOccupancyModel_evaluate test_df metrics self)"

record 'm TransformerOccupancyModel =
  zone_id :: "string option"
  seq_length :: int
  pred_length :: int
  d_model :: int
  n_heads :: int
  n_layers :: int
  kwargs :: pydict
  model :: "'m option"
  scaler :: "'m option"

type_synonym ('m, 'a) transformer_method =
  "'m TransformerOccupancyModel \<Rightarrow> (exn + 'a) \<times> 'm TransformerOccupancyModel"

definition TransformerOccupancyModel_init ::
    "string option \<Rightarrow> int \<Rightarrow> int \<Rightarrow> int \<Rightarrow> int \<Rightarrow> int \<Rightarrow> pydict \<Rightarrow> 'm TransformerOccupancyModel" where
  "TransformerOccupancyModel_init zone_id' seq_length' pred_length' d_model' n_heads' n_layers' kwargs' =
     \<lparr>zone_id = zone_id', seq_length = seq_length', pred_length = pred_length',
      d_model = d_model', n_heads = n_heads', n_layers = n_layers', kwargs = kwargs',
      model = None, scaler = None\<rparr>"

definition TransformerOccupancyModel_build_model :: "('m, unit) transformer_method" where
  "TransformerOccupancyModel_build_model self =
     (Inl (NotImplementedError ''Implement transformer architecture''), self)"

definition TransformerOccupancyModel_prepare_sequences ::
    "ref \<Rightarrow> string \<Rightarrow> string list option \<Rightarrow> ('m, pyval list \<times> pyval list) transformer_method" where
  "TransformerOccupancyModel_prepare_sequences df target_col feature_cols self =
     (Inl (NotImplementedError ''Implement sequence preparation''), self)"

definition TransformerOccupancyModel_fit ::
    "ref \<Rightarrow> int \<Rightarrow> int \<Rightarrow> real \<Rightarrow> real \<Rightarrow> ('m, unit) transformer_method" where
  "TransformerOccupancyModel_fit df epochs batch_size learning_rate val_split self =
     (Inl (NotImplementedError ''Implement transformer training''), self)"

definition TransformerOccupancyModel_predict ::
    "ref \<Rightarrow> int option \<Rightarrow> ('m, ref) transformer_method" where
  "TransformerOccupancyModel_predict df horizon self =
     (if model self = None
      then (Inl (ValueError ''Model must be fitted before prediction''), self)
      else (Inl (NotImplementedError ''Implement transformer prediction''), self))"

definition TransformerOccupancyModel_evaluate ::
    "ref \<Rightarrow> string list option \<Rightarrow> ('m, pydict) transformer_method" where
  "TransformerOccupancyModel_evaluate test_df metrics self =
     (let metrics = (case metrics of None \<Rightarrow> [''mae'', ''rmse'', ''mape''] | Some m \<Rightarrow> m)
      in (Inl (NotImplementedError ''Implement model evaluation''), self))"

text \<open>
  The methods of \<open>TransformerOccupancyModel\<close>, the two whose names start with an
  underscore included: Python does not stop a caller from invoking them.
\<close>

datatype transformer_call =
  Transformer_build_model
| Transformer_prepare_sequences ref string "string list option"
| Transformer_fit ref int int real real
| Transformer_predict ref "int option"
| Transformer_evaluate ref "string list option"

fun transformer_raised :: "transformer_call \<Rightarrow> 'm TransformerOccupancyModel \<Rightarrow> exn option" where
  "transformer_raised Transformer_build_model self =
     raised (fst (TransformerOccupancyModel_build_model self))"
| "transformer_raised (Transformer_prepare_sequences df target_col feature_cols) self =
     raised (fst (TransformerOccupancyModel_prepare_sequences df target_col feature_cols self))"
| "transformer_raised (Transformer_fit df epochs batch_size learning_rate val_split) self =
     raised (fst (TransformerOccupancyModel_fit df epochs batch_size learning_rate val_split self))"
| "transformer_raised (Transformer_predict df horizon) self =
     raised (fst (TransformerOccupancyModel_predict df horizon self))"
| "transformer_raised (Transformer_evaluate test_df metrics) self =
     raised (fst (TransformerOccupancyModel_evaluate test_df metrics self))"

fun transformer_after ::
    "'m TransformerOccupancyModel \<Rightarrow> transformer_call \<Rightarrow> 'm TransformerOccupancyModel" where
  "transformer_after self Transformer_build_model =
     snd (TransformerOccupancyModel_build_model self)"
| "transformer_after self (Transformer_prepare_sequences df target_col feature_cols) =
     snd (TransformerOccupancyModel_prepare_sequences df target_col feature_cols self)"
| "transformer_after self (Transformer_fit df epochs batch_size learning_rate val_split) =
     snd (TransformerOccupancyModel_fit df epochs batch_size learning_rate val_split self)"
| "transformer_after self (Transformer_predict df horizon) =
     snd (TransformerOccupancyModel_predict df horizon self)"
| "transformer_after self (Transformer_evaluate test_df metrics) =
     snd (TransformerOccupancyModel_evaluate test_df metrics self)"

section \<open>Visualization (viz/dashboards.py)\<close>

text \<open>A figure size is a pair of integers; the returned figure is an opaque handle.\<close>

type_synonym figure = nat

definition plot_daily_opportunity_for_savings ::
    "ref \<Rightarrow> string \<Rightarrow> string \<Rightarrow> string \<Rightarrow> int \<times> int \<Rightarrow> string option \<Rightarrow> figure py" where
  "plot_daily_opportunity_for_savings df date_col opportunity_energy_col total_energy_col figsize title s =
     (Inl (NotImplementedError ''Implement daily opportunity plot''), s)"

definition plot_example_day_timeline ::
    "ref \<Rightarrow> string \<Rightarrow> string option \<Rightarrow> int \<times> int \<Rightarrow> figure py" where
  "plot_example_day_timeline df date zone figsize s =
     (Inl (NotImplementedError ''Implement example day timeline plot''), s)"

definition plot_occupancy_heatmap ::
    "ref \<Rightarrow> string option \<Rightarrow> string \<Rightarrow> int \<times> int \<Rightarrow> figure py" where
  "plot_occupancy_heatmap df zone agg_func figsize s =
     (Inl (NotImplementedError ''Implement occupancy heatmap''), s)"

definition plot_savings_summary :: "pydict \<Rightarrow> int \<times> int \<Rightarrow> figure py" where
  "plot_savings_summary savings_dict figsize s =
     (Inl (NotImplementedError ''Implement savings summary plot''), s)"

definition create_interactive_dashboard :: "ref \<Rightarrow> int \<Rightarrow> unit py" where
  "create_interactive_dashboard df port s =
     (Inl (NotImplementedError ''Implement interactive dashboard''), s)"

section \<open>The calls of the package\<close>

text \<open>
  Every module-level function, the constructors of the two model classes and every method
  of theirs, with its arguments (a method call names the instance it is invoked on).
\<close>

datatype layer = Data_loading | Preprocessing | Control | Models | Visualization

datatype 'm call =
  Call_load_occupancy string bool
| Call_load_hvac string bool
| Call_load_weather string bool
| Call_load_tou string bool
| Call_load_space_metadata string
| Call_merge_occupancy_hvac ref ref string string
| Call_add_weather_features ref ref
| Call_add_tou_features ref ref
| Call_engineer_features ref bool bool "int list option"
| Call_compute_opportunity_for_savings ref string string "string option"
| Call_compute_savings_and_setpoints ref ref "ref option" "pydict option"
| Call_estimate_savings_potential ref string string string "string option"
| Call_simulate_control_policy ref string "pydict option"
| Call_ProphetOccupancyModel "string option" string pydict
| Call_prophet "'m ProphetOccupancyModel" prophet_call
| Call_TransformerOccupancyModel "string option" int int int int int pydict
| Call_transformer "'m TransformerOccupancyModel" transformer_call
| Call_plot_daily_opportunity_for_savings ref string string string "int \<times> int" "string option"
| Call_plot_example_day_timeline ref string "string option" "int \<times> int"
| Call_plot_occupancy_heatmap ref "string option" string "int \<times> int"
| Call_plot_savings_summary pydict "int \<times> int"
| Call_create_interactive_dashboard ref int

text \<open>The exception a call ends with on a store, \<open>None\<close> when it returns.\<close>

fun call_raised :: "'m call \<Rightarrow> store \<Rightarrow> exn option" where
  "call_raised (Call_load_occupancy path parse_dates) s =
     raised (fst (load_occupancy path parse_dates s))"
| "call_raised (Call_load_hvac path parse_dates) s =
     raised (fst (load_hvac path parse_dates s))"
| "call_raised (Call_load_weather path parse_dates) s =
     raised (fst (load_weather path parse_dates s))"
| "call_raised (Call_load_tou path parse_dates) s =
     raised (fst (load_tou path parse_dates s))"
| "call_raised (Call_load_space_metadata path) s =
     raised (fst (load_space_metadata path s))"
| "call_raised (Call_merge_occupancy_hvac occ_df hvac_df fr how) s =
     raised (fst (merge_occupancy_hvac occ_df hvac_df fr how s))"
| "call_raised (Call_add_weather_features df weather_df) s =
     raised (fst (add_weather_features df weather_df s))"
| "call_raised (Call_add_tou_features df tou_df) s =
     raised (fst (add_tou_features df tou_df s))"
| "call_raised (Call_engineer_features df include_time_features include_lag_features lag_periods) s =
     raised (fst (engineer_features df include_time_features include_lag_features lag_periods s))"
| "call_raised (Call_compute_opportunity_for_savings df occupancy_col hvac_state_col energy_col) s =
     raised (fst (compute_opportunity_for_savings df occupancy_col hvac_state_col energy_col s))"
| "call_raised (Call_compute_savings_and_setpoints occupancy_forecast hvac_baseline tou_rates
       comfort_constraints) s =
     raised (fst (compute_savings_and_setpoints occupancy_forecast hvac_baseline tou_rates
       comfort_constraints s))"
| "call_raised (Call_estimate_savings_potential historical_df occupancy_col hvac_on_col energy_col
       tou_rate_col) s =
     raised (fst (estimate_savings_potential historical_df occupancy_col hvac_on_col energy_col
       tou_rate_col s))"
| "call_raised (Call_simulate_control_policy historical_df policy policy_params) s =
     raised (fst (simulate_control_policy historical_df policy policy_params s))"
| "call_raised (Call_ProphetOccupancyModel zone fr prophet_kw) s =
     raised (Inr (ProphetOccupancyModel_init zone fr prophet_kw :: 'm ProphetOccupancyModel))"
| "call_raised (Call_prophet self c) s = prophet_raised c self"
| "call_raised (Call_TransformerOccupancyModel zone sl pl dm nh nl kw) s =
     raised (Inr (TransformerOccupancyModel_init zone sl pl dm nh nl kw
                    :: 'm TransformerOccupancyModel))"
| "call_raised (Call_transformer self c) s = transformer_raised c self"
| "call_raised (Call_plot_daily_opportunity_for_savings df date_col opportunity_energy_col
       total_energy_col figsize title) s =
     raised (fst (plot_daily_opportunity_for_savings df date_col opportunity_energy_col
       total_energy_col figsize title s))"
| "call_raised (Call_plot_example_day_timeline df date zone figsize) s =
     raised (fst (plot_example_day_timeline df date zone figsize s))"
| "call_raised (Call_plot_occupancy_heatmap df zone agg_func figsize) s =
     raised (fst (plot_occupancy_heatmap df zone agg_func figsize s))"
| "call_raised (Call_plot_savings_summary savings_dict figsize) s =
     raised (fst (plot_savings_summary savings_dict figsize s))"
| "call_raised (Call_create_interactive_dashboard df port) s =
     raised (fst (create_interactive_dashboard df port s))"

text \<open>The module a call belongs to.\<close>

fun layer_of :: "'m call \<Rightarrow> layer" where
  "layer_of (Call_load_occupancy path parse_dates) = Data_loading"
| "layer_of (Call_load_hvac path parse_dates) = Data_loading"
| "layer_of (Call_load_weather path parse_dates) = Data_loading"
| "layer_of (Call_load_tou path parse_dates) = Data_loading"
| "layer_of (Call_load_space_metadata path) = Data_loading"
| "layer_of (Call_merge_occupancy_hvac occ_df hvac_df fr how) = Preprocessing"
| "layer_of (Call_add_weather_features df weather_df) = Preprocessing"
| "layer_of (Call_add_tou_features df tou_df) = Preprocessing"
| "layer_of (Call_engineer_features df include_time_features include_lag_features lag_periods) =
     Preprocessing"
| "layer_of (Call_compute_opportunity_for_savings df occupancy_col hvac_state_col energy_col) =
     Preprocessing"
| "layer_of (Call_compute_savings_and_setpoints occupancy_forecast hvac_baseline tou_rates
       comfort_constraints) = Control"
| "layer_of (Call_estimate_savings_potential historical_df occupancy_col hvac_on_col energy_col
       tou_rate_col) = Control"
| "layer_of (Call_simulate_control_policy historical_df policy policy_params) = Control"
| "layer_of (Call_ProphetOccupancyModel zone fr prophet_kw) = Models"
| "layer_of (Call_prophet self c) = Models"
| "layer_of (Call_TransformerOccupancyModel zone sl pl dm nh nl kw) = Models"
| "layer_of (Call_transformer self c) = Models"
| "layer_of (Call_plot_daily_opportunity_for_savings df date_col opportunity_energy_col
       total_energy_col figsize title) = Visualization"
| "layer_of (Call_plot_example_day_timeline df date zone figsize) = Visualization"
| "layer_of (Call_plot_occupancy_heatmap df zone agg_func figsize) = Visualization"
| "layer_of (Call_plot_savings_summary savings_dict figsize) = Visualization"
| "layer_of (Call_create_interactive_dashboard df port) = Visualization"

text \<open>A name that starts with an underscore is not public.\<close>

fun is_public :: "'m call \<Rightarrow> bool" where
  "is_public (Call_transformer self Transformer_build_model) = False"
| "is_public (Call_transformer self (Transformer_prepare_sequences df target_col feature_cols)) =
     False"
| "is_public c = True"

fun is_engineer_features :: "'m call \<Rightarrow> bool" where
  "is_engineer_features (Call_engineer_features df include_time_features include_lag_features
       lag_periods) = True"
| "is_engineer_features c = False"

fun is_constructor :: "'m call \<Rightarrow> bool" where
  "is_constructor (Call_ProphetOccupancyModel zone fr prophet_kw) = True"
| "is_constructor (Call_TransformerOccupancyModel zone sl pl dm nh nl kw) = True"
| "is_constructor c = False"

text \<open>
  Two functions copy their argument \<open>df\<close>. For a call of one of them, whether that
  argument is a DataFrame of the store; true of every other call, which copies nothing.
\<close>

fun copied_is_DataFrame :: "'m call \<Rightarrow> store \<Rightarrow> bool" where
  "copied_is_DataFrame (Call_engineer_features df include_time_features include_lag_features
       lag_periods) s = is_DataFrame s df"
| "copied_is_DataFrame (Call_compute_opportunity_for_savings df occupancy_col hvac_state_col
       energy_col) s = is_DataFrame s df"
| "copied_is_DataFrame c s = True"

fun is_simulate_control_policy :: "'m call \<Rightarrow> bool" where
  "is_simulate_control_policy (Call_simulate_control_policy historical_df policy policy_params) =
     True"
| "is_simulate_control_policy c = False"

fun is_predict :: "'m call \<Rightarrow> bool" where
  "is_predict (Call_prophet self (Prophet_predict periods include_history)) = True"
| "is_predict (Call_transformer self (Transformer_predict df horizon)) = True"
| "is_predict c = False"

section \<open>Shared facts\<close>

lemmas loader_defs =
  load_occupancy_def load_hvac_def load_weather_def load_tou_def load_space_metadata_def

lemmas preprocess_defs =
  merge_occupancy_hvac_def add_weather_features_def add_tou_features_def

lemmas optimizer_defs =
  compute_savings_and_setpoints_def estimate_savings_potential_def

lemmas viz_defs =
  plot_daily_opportunity_for_savings_def plot_example_day_timeline_def
  plot_occupancy_heatmap_def plot_savings_summary_def create_interactive_dashboard_def

lemmas prophet_defs =
  ProphetOccupancyModel_fit_def ProphetOccupancyModel_predict_def
  ProphetOccupancyModel_evaluate_def

lemmas transformer_defs =
  TransformerOccupancyModel_build_model_def TransformerOccupancyModel_prepare_sequences_def
  TransformerOccupancyModel_fit_def TransformerOccupancyModel_predict_def
  TransformerOccupancyModel_evaluate_def

lemma engineer_features_DataFrame:
  "is_DataFrame s df \<Longrightarrow>
     engineer_features df include_time_features include_lag_features lag_periods s =
       (Inr (length s), s @ [s ! df])"
  by (simp add: engineer_features_def DataFrame_copy_def)

lemma engineer_features_other:
  "\<not> is_DataFrame s df \<Longrightarrow>
     engineer_features df include_time_features include_lag_features lag_periods s =
       (Inl (AttributeError ''copy''), s)"
  by (simp add: engineer_features_def DataFrame_copy_def)

lemma compute_opportunity_for_savings_DataFrame:
  "is_DataFrame s df \<Longrightarrow>
     compute_opportunity_for_savings df occupancy_col hvac_state_col energy_col s =
       (Inl (NotImplementedError ''Implement opportunity for savings calculation''),
        s @ [s ! df])"
  by (simp add: compute_opportunity_for_savings_def DataFrame_copy_def)

lemma compute_opportunity_for_savings_other:
  "\<not> is_DataFrame s df \<Longrightarrow>
     compute_opportunity_for_savings df occupancy_col hvac_state_col energy_col s =
       (Inl (AttributeError ''copy''), s)"
  by (simp add: compute_opportunity_for_savings_def DataFrame_copy_def)


lemma prophet_after_same: "prophet_after self c = self"
  by (cases c) (simp_all add: prophet_defs)

lemma transformer_after_same: "transformer_after self c = self"
  by (cases c) (simp_all add: transformer_defs)

lemma prophet_calls_same: "foldl prophet_after self calls = self"
  by (induction calls) (simp_all add: prophet_after_same)

lemma transformer_calls_same: "foldl transformer_after self calls = self"
  by (induction calls) (simp_all add: transformer_after_same)

lemma policy_message:
  "''Policy must be one of '' @ repr_list valid_policies = ''Policy must be one of ['occupancy_setback', 'predictive_setback', 'optimal_schedule']''"
  by (simp add: repr_list_def repr_str_def valid_policies_def)

lemma valid_policies_cited:
  "list_all (\<lambda>p. sublist p ''Policy must be one of ['occupancy_setback', 'predictive_setback', 'optimal_schedule']'') valid_policies"
  by code_simp

section \<open>The stubs\<close>

text \<open>
  C1. Claim: every public function of the data-loading, preprocessing, optimizer and model
  layers, other than \<open>simulate_control_policy\<close> and the two \<open>predict\<close> methods, raises
  NotImplementedError on every input.

  The claim fails in three places. \<open>engineer_features\<close>, a public function of the
  preprocessing layer, returns on a store holding one DataFrame and raises nothing. The
  constructor of a model class, a public callable of the models layer, returns. And
  \<open>compute_opportunity_for_savings\<close>, given an argument that is not a DataFrame, raises
  AttributeError at its first statement, the copy.
\<close>

theorem public_stub_counterexample:
  "layer_of (Call_engineer_features 0 True True None :: unit call) = Preprocessing
   \<and> is_public (Call_engineer_features 0 True True None :: unit call)
   \<and> \<not> is_simulate_control_policy (Call_engineer_features 0 True True None :: unit call)
   \<and> \<not> is_predict (Call_engineer_features 0 True True None :: unit call)
   \<and> call_raised (Call_engineer_features 0 True True None :: unit call) [\<lparr>index = [PyInt 0], columns = [(''occupancy_count'', [PyInt 3])]\<rparr>] = None
   \<and> \<not> is_NotImplementedError
         (call_raised (Call_engineer_features 0 True True None :: unit call) [\<lparr>index = [PyInt 0], columns = [(''occupancy_count'', [PyInt 3])]\<rparr>])
   \<and> layer_of (Call_ProphetOccupancyModel None ''15min'' [] :: unit call) = Models
   \<and> is_public (Call_ProphetOccupancyModel None ''15min'' [] :: unit call)
   \<and> \<not> is_simulate_control_policy (Call_ProphetOccupancyModel None ''15min'' [] :: unit call)
   \<and> \<not> is_predict (Call_ProphetOccupancyModel None ''15min'' [] :: unit call)
   \<and> call_raised (Call_ProphetOccupancyModel None ''15min'' [] :: unit call) [] = None
   \<and> layer_of (Call_compute_opportunity_for_savings 7 ''occupancy_count'' ''hvac_on''
         (Some ''energy_kwh'') :: unit call) = Preprocessing
   \<and> is_public (Call_compute_opportunity_for_savings 7 ''occupancy_count'' ''hvac_on''
         (Some ''energy_kwh'') :: unit call)
   \<and> \<not> is_simulate_control_policy (Call_compute_opportunity_for_savings 7 ''occupancy_count''
         ''hvac_on'' (Some ''energy_kwh'') :: unit call)
   \<and> \<not> is_predict (Call_compute_opportunity_for_savings 7 ''occupancy_count'' ''hvac_on''
         (Some ''energy_kwh'') :: unit call)
   \<and> call_raised (Call_compute_opportunity_for_savings 7 ''occupancy_count'' ''hvac_on''
         (Some ''energy_kwh'') :: unit call) [\<lparr>index = [PyInt 0], columns = [(''occupancy_count'', [PyInt 3])]\<rparr>] = Some (AttributeError ''copy'')"
  by (simp add: engineer_features_DataFrame compute_opportunity_for_savings_other
        is_DataFrame_def)

text \<open>
  C1, amended: every public function of the data-loading, preprocessing, optimizer and
  model layers, other than \<open>engineer_features\<close>, the two model constructors,
  \<open>simulate_control_policy\<close> and the two \<open>predict\<close> methods, raises NotImplementedError
  on every store and every input, provided that the \<open>df\<close> given to
  \<open>compute_opportunity_for_savings\<close>, which that function copies before it raises, is a
  DataFrame. For every other function the input is unrestricted.
\<close>

theorem public_stubs_raise_not_implemented:
  assumes "layer_of c \<noteq> Visualization" and "is_public c"
    and "\<not> is_simulate_control_policy c" and "\<not> is_predict c"
    and "\<not> is_engineer_features c" and "\<not> is_constructor c"
    and "copied_is_DataFrame c s"
  shows "is_NotImplementedError (call_raised c s)"
proof (cases c)
  case (Call_prophet self pc)
  with assms show ?thesis
    by (cases pc) (simp_all add: prophet_defs)
next
  case (Call_transformer self tc)
  with assms show ?thesis
    by (cases tc) (simp_all add: transformer_defs)
next
  case (Call_compute_opportunity_for_savings df oc hc ec)
  with assms show ?thesis
    by (simp add: compute_opportunity_for_savings_DataFrame)
qed (use assms in \<open>simp_all add: loader_defs preprocess_defs optimizer_defs\<close>)

theorem public_stubs_raise_not_implemented_witness:
  "layer_of (Call_compute_opportunity_for_savings 0 ''occupancy_count'' ''hvac_on''
       (Some ''energy_kwh'') :: unit call) \<noteq> Visualization
   \<and> is_public (Call_compute_opportunity_for_savings 0 ''occupancy_count'' ''hvac_on''
       (Some ''energy_kwh'') :: unit call)
   \<and> copied_is_DataFrame (Call_compute_opportunity_for_savings 0 ''occupancy_count''
       ''hvac_on'' (Some ''energy_kwh'') :: unit call) [\<lparr>index = [PyInt 0], columns = [(''occupancy_count'', [PyInt 3])]\<rparr>]
   \<and> is_NotImplementedError
       (call_raised (Call_compute_opportunity_for_savings 0 ''occupancy_count'' ''hvac_on''
          (Some ''energy_kwh'') :: unit call) [\<lparr>index = [PyInt 0], columns = [(''occupancy_count'', [PyInt 3])]\<rparr>])"
  using public_stubs_raise_not_implemented
    [of "Call_compute_opportunity_for_savings 0 ''occupancy_count'' ''hvac_on''
           (Some ''energy_kwh'') :: unit call" "[\<lparr>index = [PyInt 0], columns = [(''occupancy_count'', [PyInt 3])]\<rparr>]"]
  by (simp add: is_DataFrame_def)

text \<open>
  C6. Each of the four plotting functions and the dashboard launcher raises
  NotImplementedError for every input, and leaves the store as it was; none returns a figure.
\<close>

theorem visualization_not_implemented:
  "plot_daily_opportunity_for_savings df date_col opportunity_energy_col total_energy_col
       figsize title s = (Inl (NotImplementedError ''Implement daily opportunity plot''), s)
   \<and> plot_example_day_timeline df date zone figsize s =
       (Inl (NotImplementedError ''Implement example day timeline plot''), s)
   \<and> plot_occupancy_heatmap df zone agg_func figsize s =
       (Inl (NotImplementedError ''Implement occupancy heatmap''), s)
   \<and> plot_savings_summary savings_dict figsize s =
       (Inl (NotImplementedError ''Implement savings summary plot''), s)
   \<and> create_interactive_dashboard df port s =
       (Inl (NotImplementedError ''Implement interactive dashboard''), s)"
  by (simp add: viz_defs)

text \<open>
  C7. Every NotImplementedError raised by a function or a method of the package, the
  private methods and the visualization module included, carries a message that is not
  the empty string.
\<close>

theorem not_implemented_has_message:
  assumes "call_raised c s = Some (NotImplementedError msg)"
  shows "msg \<noteq> []"
proof (cases c)
  case (Call_prophet self pc)
  with assms show ?thesis
    by (cases pc) (auto simp: prophet_defs split: if_splits)
next
  case (Call_transformer self tc)
  with assms show ?thesis
    by (cases tc) (auto simp: transformer_defs split: if_splits)
next
  case (Call_simulate_control_policy df policy pp)
  with assms show ?thesis
    by (auto simp: simulate_control_policy_def split: if_splits)
next
  case (Call_compute_opportunity_for_savings df oc hc ec)
  with assms show ?thesis
    by (cases "is_DataFrame s df")
       (auto simp: compute_opportunity_for_savings_DataFrame
          compute_opportunity_for_savings_other)
next
  case (Call_engineer_features df tf lf lp)
  with assms show ?thesis
    by (cases "is_DataFrame s df")
       (simp_all add: engineer_features_DataFrame engineer_features_other)
qed (use assms in \<open>auto simp: loader_defs preprocess_defs optimizer_defs viz_defs\<close>)

theorem not_implemented_has_message_witness:
  "call_raised (Call_load_occupancy ''occupancy.csv'' True :: unit call) [] =
     Some (NotImplementedError ''Implement once raw data format is confirmed'')
   \<and> ''Implement once raw data format is confirmed'' \<noteq> []"
proof -
  have r: "call_raised (Call_load_occupancy ''occupancy.csv'' True :: unit call) [] =
     Some (NotImplementedError ''Implement once raw data format is confirmed'')"
    by (simp add: load_occupancy_def)
  from r not_implemented_has_message [OF r] show ?thesis by blast
qed

section \<open>The policy check of the optimizer\<close>

text \<open>
  C2. \<open>simulate_control_policy\<close> raises ValueError whenever the policy is not one of the
  three valid names, with a message in which each of the three names occurs, and raises
  NotImplementedError for each of the three names, whatever \<open>historical_df\<close> and
  \<open>policy_params\<close> are.
\<close>

theorem simulate_control_policy_outcome:
  "(policy \<notin> set valid_policies \<longrightarrow>
      simulate_control_policy historical_df policy policy_params s =
        (Inl (ValueError ''Policy must be one of ['occupancy_setback', 'predictive_setback', 'optimal_schedule']''), s)
      \<and> (\<forall>p \<in> set valid_policies. sublist p ''Policy must be one of ['occupancy_setback', 'predictive_setback', 'optimal_schedule']''))
   \<and> (policy \<in> set valid_policies \<longrightarrow>
      simulate_control_policy historical_df policy policy_params s =
        (Inl (NotImplementedError ''Implement control policy simulation''), s))"
proof -
  have cited: "\<forall>p \<in> set valid_policies. sublist p ''Policy must be one of ['occupancy_setback', 'predictive_setback', 'optimal_schedule']''"
    using valid_policies_cited unfolding list_all_iff .
  have bad: "policy \<notin> set valid_policies \<Longrightarrow>
      simulate_control_policy historical_df policy policy_params s =
        (Inl (ValueError ''Policy must be one of ['occupancy_setback', 'predictive_setback', 'optimal_schedule']''), s)"
    unfolding simulate_control_policy_def policy_message by simp
  have good: "policy \<in> set valid_policies \<Longrightarrow>
      simulate_control_policy historical_df policy policy_params s =
        (Inl (NotImplementedError ''Implement control policy simulation''), s)"
    unfolding simulate_control_policy_def by simp
  from cited bad good show ?thesis by blast
qed

theorem simulate_control_policy_outcome_witness:
  "''invalid_policy'' \<notin> set valid_policies
   \<and> simulate_control_policy 0 ''invalid_policy'' None [\<lparr>index = [PyInt 0], columns = [(''occupancy_count'', [PyInt 3])]\<rparr>] =
       (Inl (ValueError ''Policy must be one of ['occupancy_setback', 'predictive_setback', 'optimal_schedule']''), [\<lparr>index = [PyInt 0], columns = [(''occupancy_count'', [PyInt 3])]\<rparr>])
   \<and> sublist ''predictive_setback'' ''Policy must be one of ['occupancy_setback', 'predictive_setback', 'optimal_schedule']''
   \<and> ''optimal_schedule'' \<in> set valid_policies
   \<and> simulate_control_policy 0 ''optimal_schedule'' (Some [(''setback'', PyInt 5)]) [\<lparr>index = [PyInt 0], columns = [(''occupancy_count'', [PyInt 3])]\<rparr>] =
       (Inl (NotImplementedError ''Implement control policy simulation''), [\<lparr>index = [PyInt 0], columns = [(''occupancy_count'', [PyInt 3])]\<rparr>])"
proof -
  have out: "''invalid_policy'' \<notin> set valid_policies"
    by (simp add: valid_policies_def)
  have mem: "''optimal_schedule'' \<in> set valid_policies"
    by (simp add: valid_policies_def)
  have mem2: "''predictive_setback'' \<in> set valid_policies"
    by (simp add: valid_policies_def)
  from out mem mem2
    simulate_control_policy_outcome [of "''invalid_policy''" 0 None "[\<lparr>index = [PyInt 0], columns = [(''occupancy_count'', [PyInt 3])]\<rparr>]"]
    simulate_control_policy_outcome
      [of "''optimal_schedule''" 0 "Some [(''setback'', PyInt 5)]" "[\<lparr>index = [PyInt 0], columns = [(''occupancy_count'', [PyInt 3])]\<rparr>]"]
  show ?thesis by blast
qed

text \<open>
  C10. The exception that \<open>simulate_control_policy\<close> raises is a function of the policy
  string alone: two calls with the same policy raise the same exception with the same
  message whatever the DataFrame references, the parameters and the stores are, the call
  always ends in an exception, and the store, \<open>historical_df\<close> with it, is left as it was.
\<close>

theorem simulate_control_policy_policy_only:
  "fst (simulate_control_policy historical_df policy policy_params s) =
     fst (simulate_control_policy historical_df' policy policy_params' s')
   \<and> raised (fst (simulate_control_policy historical_df policy policy_params s)) \<noteq> None
   \<and> snd (simulate_control_policy historical_df policy policy_params s) = s"
  by (simp add: simulate_control_policy_def)

section \<open>The preprocessing function that returns\<close>

text \<open>
  C4. \<open>engineer_features\<close>, called with both flags true and any \<open>lag_periods\<close> on a
  DataFrame of the store, returns a new DataFrame that is equal to the input and has the
  same columns, no more; the input object is a different object and is left as it was; and
  the call returns the same for every other combination of the flags and of \<open>lag_periods\<close>.
\<close>

theorem engineer_features_returns_copy:
  assumes "is_DataFrame s df"
  shows "fst (engineer_features df True True lag_periods s) = Inr (length s)
   \<and> length s \<noteq> df
   \<and> is_DataFrame (snd (engineer_features df True True lag_periods s)) (length s)
   \<and> snd (engineer_features df True True lag_periods s) ! length s = s ! df
   \<and> column_names (snd (engineer_features df True True lag_periods s) ! length s) =
       column_names (s ! df)
   \<and> snd (engineer_features df True True lag_periods s) ! df = s ! df
   \<and> engineer_features df include_time_features include_lag_features lag_periods' s =
       engineer_features df True True lag_periods s"
  using assms by (simp add: engineer_features_DataFrame is_DataFrame_def nth_append)

theorem engineer_features_returns_copy_witness:
  "is_DataFrame [\<lparr>index = [PyInt 0], columns = [(''occupancy_count'', [PyInt 3])]\<rparr>] 0
   \<and> engineer_features 0 True True None [\<lparr>index = [PyInt 0], columns = [(''occupancy_count'', [PyInt 3])]\<rparr>] = (Inr 1, [\<lparr>index = [PyInt 0], columns = [(''occupancy_count'', [PyInt 3])]\<rparr>, \<lparr>index = [PyInt 0], columns = [(''occupancy_count'', [PyInt 3])]\<rparr>])
   \<and> column_names ([\<lparr>index = [PyInt 0], columns = [(''occupancy_count'', [PyInt 3])]\<rparr>, \<lparr>index = [PyInt 0], columns = [(''occupancy_count'', [PyInt 3])]\<rparr>] ! 1) = [''occupancy_count'']
   \<and> engineer_features 0 False False (Some [2]) [\<lparr>index = [PyInt 0], columns = [(''occupancy_count'', [PyInt 3])]\<rparr>] =
       engineer_features 0 True True None [\<lparr>index = [PyInt 0], columns = [(''occupancy_count'', [PyInt 3])]\<rparr>]"
proof -
  have d: "is_DataFrame [\<lparr>index = [PyInt 0], columns = [(''occupancy_count'', [PyInt 3])]\<rparr>] 0"
    by (simp add: is_DataFrame_def)
  from d engineer_features_returns_copy [OF d, of None False False "Some [2]"]
  show ?thesis
    by (simp add: engineer_features_DataFrame column_names_def)
qed




section \<open>The fitted-state guard of the models\<close>

text \<open>
  C3. For both model classes, \<open>predict\<close> on an instance whose \<open>model\<close> attribute is
  \<open>None\<close>, as it is on a freshly constructed instance, raises ValueError with the message
  "Model must be fitted before prediction" for every argument, and leaves the instance as
  it was.
\<close>

theorem predict_before_fit:
  "ProphetOccupancyModel.model (ProphetOccupancyModel_init zone fr kw) = None
   \<and> model (TransformerOccupancyModel_init zone' sl pl dm nh nl kw') = None
   \<and> (ProphetOccupancyModel.model p = None \<longrightarrow>
        ProphetOccupancyModel_predict periods include_history p = (Inl (ValueError ''Model must be fitted before prediction''), p))
   \<and> (model t = None \<longrightarrow>
        TransformerOccupancyModel_predict df horizon t = (Inl (ValueError ''Model must be fitted before prediction''), t))"
  by (simp add: ProphetOccupancyModel_init_def TransformerOccupancyModel_init_def
        ProphetOccupancyModel_predict_def TransformerOccupancyModel_predict_def)

theorem predict_before_fit_witness:
  "ProphetOccupancyModel_predict 96 False
       (ProphetOccupancyModel_init (Some ''zone_1'') ''15min'' [] :: unit ProphetOccupancyModel) =
     (Inl (ValueError ''Model must be fitted before prediction''), ProphetOccupancyModel_init (Some ''zone_1'') ''15min'' [])
   \<and> TransformerOccupancyModel_predict 0 None
       (TransformerOccupancyModel_init None 96 96 64 4 2 [] :: unit TransformerOccupancyModel) =
     (Inl (ValueError ''Model must be fitted before prediction''), TransformerOccupancyModel_init None 96 96 64 4 2 [])"
  using predict_before_fit
    [of "Some ''zone_1''" "''15min''" "[]" None 96 96 64 4 2 "[]"
        "ProphetOccupancyModel_init (Some ''zone_1'') ''15min'' [] :: unit ProphetOccupancyModel"
        96 False
        "TransformerOccupancyModel_init None 96 96 64 4 2 [] :: unit TransformerOccupancyModel"
        0 None]
  by blast

text \<open>
  C5. Claim: for both model classes, \<open>evaluate\<close> before \<open>fit\<close> raises the ValueError of
  the fitted-state guard and no other error.

  The claim fails on a freshly constructed instance of either class: \<open>evaluate\<close> raises
  NotImplementedError there.
\<close>

theorem evaluate_before_fit_counterexample:
  "fst (ProphetOccupancyModel_evaluate 0 None
          (ProphetOccupancyModel_init None ''15min'' [] :: unit ProphetOccupancyModel)) =
     Inl (NotImplementedError ''Implement model evaluation'')
   \<and> fst (ProphetOccupancyModel_evaluate 0 None
          (ProphetOccupancyModel_init None ''15min'' [] :: unit ProphetOccupancyModel)) \<noteq>
     Inl (ValueError ''Model must be fitted before prediction'')
   \<and> fst (TransformerOccupancyModel_evaluate 0 None
          (TransformerOccupancyModel_init None 96 96 64 4 2 [] :: unit TransformerOccupancyModel)) =
     Inl (NotImplementedError ''Implement model evaluation'')
   \<and> fst (TransformerOccupancyModel_evaluate 0 None
          (TransformerOccupancyModel_init None 96 96 64 4 2 [] :: unit TransformerOccupancyModel)) \<noteq>
     Inl (ValueError ''Model must be fitted before prediction'')"
  by (simp add: ProphetOccupancyModel_evaluate_def TransformerOccupancyModel_evaluate_def)

text \<open>
  C5, amended: for both model classes, \<open>evaluate\<close> has no guard on the fitted state: on
  every instance, fitted or not, and for every argument it raises NotImplementedError with
  the message "Implement model evaluation" and leaves the instance as it was. Only
  \<open>predict\<close> guards on the fitted state: it raises the ValueError of the guard when
  \<open>model\<close> is \<open>None\<close> and NotImplementedError otherwise, while every other method raises
  NotImplementedError and raises the same on any two instances.
\<close>

theorem evaluate_not_guarded:
  "ProphetOccupancyModel_evaluate test_df metrics p =
     (Inl (NotImplementedError ''Implement model evaluation''), p)
   \<and> TransformerOccupancyModel_evaluate test_df' metrics' t =
     (Inl (NotImplementedError ''Implement model evaluation''), t)
   \<and> ProphetOccupancyModel_predict periods include_history p =
     (if ProphetOccupancyModel.model p = None then (Inl (ValueError ''Model must be fitted before prediction''), p)
      else (Inl (NotImplementedError ''Implement Prophet prediction''), p))
   \<and> TransformerOccupancyModel_predict df horizon t =
     (if model t = None then (Inl (ValueError ''Model must be fitted before prediction''), t)
      else (Inl (NotImplementedError ''Implement transformer prediction''), t))
   \<and> (\<not> is_predict (Call_prophet p pc) \<longrightarrow>
        is_NotImplementedError (call_raised (Call_prophet p pc) s)
        \<and> call_raised (Call_prophet p pc) s = call_raised (Call_prophet p' pc) s')
   \<and> (\<not> is_predict (Call_transformer t tc) \<longrightarrow>
        is_NotImplementedError (call_raised (Call_transformer t tc) s)
        \<and> call_raised (Call_transformer t tc) s = call_raised (Call_transformer t' tc) s')"
proof -
  have ev: "ProphetOccupancyModel_evaluate test_df metrics p =
       (Inl (NotImplementedError ''Implement model evaluation''), p)
     \<and> TransformerOccupancyModel_evaluate test_df' metrics' t =
       (Inl (NotImplementedError ''Implement model evaluation''), t)"
    by (simp add: ProphetOccupancyModel_evaluate_def TransformerOccupancyModel_evaluate_def)
  have pp: "ProphetOccupancyModel_predict periods include_history p =
     (if ProphetOccupancyModel.model p = None then (Inl (ValueError ''Model must be fitted before prediction''), p)
      else (Inl (NotImplementedError ''Implement Prophet prediction''), p))"
    by (simp add: ProphetOccupancyModel_predict_def)
  have tp: "TransformerOccupancyModel_predict df horizon t =
     (if model t = None then (Inl (ValueError ''Model must be fitted before prediction''), t)
      else (Inl (NotImplementedError ''Implement transformer prediction''), t))"
    by (simp add: TransformerOccupancyModel_predict_def)
  have po: "\<not> is_predict (Call_prophet p pc) \<Longrightarrow>
        is_NotImplementedError (call_raised (Call_prophet p pc) s)
        \<and> call_raised (Call_prophet p pc) s = call_raised (Call_prophet p' pc) s'"
    by (cases pc) (simp_all add: prophet_defs)
  have to: "\<not> is_predict (Call_transformer t tc) \<Longrightarrow>
        is_NotImplementedError (call_raised (Call_transformer t tc) s)
        \<and> call_raised (Call_transformer t tc) s = call_raised (Call_transformer t' tc) s'"
    by (cases tc) (simp_all add: transformer_defs)
  from ev pp tp po to show ?thesis by blast
qed

theorem evaluate_not_guarded_witness:
  "\<not> is_predict (Call_prophet
         (ProphetOccupancyModel_init None ''15min'' [] :: unit ProphetOccupancyModel)
         (Prophet_fit 0))
   \<and> call_raised (Call_prophet
         (ProphetOccupancyModel_init None ''15min'' [] :: unit ProphetOccupancyModel)
         (Prophet_fit 0)) [] =
       call_raised (Call_prophet
         ((ProphetOccupancyModel_init None ''15min'' [] :: unit ProphetOccupancyModel)
            \<lparr>ProphetOccupancyModel.model := Some ()\<rparr>)
         (Prophet_fit 0)) []
   \<and> \<not> is_predict (Call_transformer
         (TransformerOccupancyModel_init None 96 96 64 4 2 [] :: unit TransformerOccupancyModel)
         Transformer_build_model)
   \<and> is_NotImplementedError (call_raised (Call_transformer
         (TransformerOccupancyModel_init None 96 96 64 4 2 [] :: unit TransformerOccupancyModel)
         Transformer_build_model) [])
   \<and> ProphetOccupancyModel_predict 96 False
         ((ProphetOccupancyModel_init None ''15min'' [] :: unit ProphetOccupancyModel)
            \<lparr>ProphetOccupancyModel.model := Some ()\<rparr>) =
       (Inl (NotImplementedError ''Implement Prophet prediction''),
        (ProphetOccupancyModel_init None ''15min'' [])
            \<lparr>ProphetOccupancyModel.model := Some ()\<rparr>)"
proof -
  have a: "\<not> is_predict (Call_prophet
         (ProphetOccupancyModel_init None ''15min'' [] :: unit ProphetOccupancyModel)
         (Prophet_fit 0))"
    by simp
  have b: "\<not> is_predict (Call_transformer
         (TransformerOccupancyModel_init None 96 96 64 4 2 [] :: unit TransformerOccupancyModel)
         Transformer_build_model)"
    by simp
  have same: "call_raised (Call_prophet
         (ProphetOccupancyModel_init None ''15min'' [] :: unit ProphetOccupancyModel)
         (Prophet_fit 0)) [] =
       call_raised (Call_prophet
         ((ProphetOccupancyModel_init None ''15min'' [] :: unit ProphetOccupancyModel)
            \<lparr>ProphetOccupancyModel.model := Some ()\<rparr>)
         (Prophet_fit 0)) []"
    using a evaluate_not_guarded
      [where p = "ProphetOccupancyModel_init None ''15min'' [] :: unit ProphetOccupancyModel"
         and pc = "Prophet_fit 0" and s = "[]" and s' = "[]"
         and p' = "(ProphetOccupancyModel_init None ''15min'' [] :: unit ProphetOccupancyModel)
            \<lparr>ProphetOccupancyModel.model := Some ()\<rparr>"]
    by blast
  have build: "is_NotImplementedError (call_raised (Call_transformer
         (TransformerOccupancyModel_init None 96 96 64 4 2 [] :: unit TransformerOccupancyModel)
         Transformer_build_model) [])"
    using b evaluate_not_guarded
      [where t = "TransformerOccupancyModel_init None 96 96 64 4 2 []
            :: unit TransformerOccupancyModel"
         and tc = Transformer_build_model and s = "[]"]
    by blast
  have fitted: "ProphetOccupancyModel_predict 96 False
         ((ProphetOccupancyModel_init None ''15min'' [] :: unit ProphetOccupancyModel)
            \<lparr>ProphetOccupancyModel.model := Some ()\<rparr>) =
       (Inl (NotImplementedError ''Implement Prophet prediction''),
        (ProphetOccupancyModel_init None ''15min'' [])
            \<lparr>ProphetOccupancyModel.model := Some ()\<rparr>)"
  proof -
    have "ProphetOccupancyModel_predict 96 False
         ((ProphetOccupancyModel_init None ''15min'' [] :: unit ProphetOccupancyModel)
            \<lparr>ProphetOccupancyModel.model := Some ()\<rparr>) =
       (if ProphetOccupancyModel.model
             ((ProphetOccupancyModel_init None ''15min'' [] :: unit ProphetOccupancyModel)
                \<lparr>ProphetOccupancyModel.model := Some ()\<rparr>) = None
        then (Inl (ValueError ''Model must be fitted before prediction''),
              (ProphetOccupancyModel_init None ''15min'' [])
                \<lparr>ProphetOccupancyModel.model := Some ()\<rparr>)
        else (Inl (NotImplementedError ''Implement Prophet prediction''),
              (ProphetOccupancyModel_init None ''15min'' [])
                \<lparr>ProphetOccupancyModel.model := Some ()\<rparr>))"
      using evaluate_not_guarded
        [where p = "(ProphetOccupancyModel_init None ''15min'' [] :: unit ProphetOccupancyModel)
              \<lparr>ProphetOccupancyModel.model := Some ()\<rparr>"
           and periods = 96 and include_history = False]
      by blast
    then show ?thesis by simp
  qed
  from a b same build fitted show ?thesis by blast
qed

text \<open>
  C8. For both model classes the fitted state cannot be reached: \<open>fit\<close> raises
  NotImplementedError and assigns nothing, so after any sequence of method calls on a
  constructed instance the \<open>model\<close> attribute is still \<open>None\<close> and \<open>predict\<close> raises
  the ValueError of its guard.
\<close>

theorem fitted_state_unreachable:
  "ProphetOccupancyModel_fit df p = (Inl (NotImplementedError ''Implement Prophet model fitting''), p)
   \<and> ProphetOccupancyModel.model
       (foldl prophet_after (ProphetOccupancyModel_init zone fr kw) pcalls) = None
   \<and> fst (ProphetOccupancyModel_predict periods include_history
            (foldl prophet_after (ProphetOccupancyModel_init zone fr kw) pcalls)) =
       Inl (ValueError ''Model must be fitted before prediction'')
   \<and> TransformerOccupancyModel_fit df' epochs batch_size learning_rate val_split t =
       (Inl (NotImplementedError ''Implement transformer training''), t)
   \<and> model (foldl transformer_after
              (TransformerOccupancyModel_init zone' sl pl dm nh nl kw') tcalls) = None
   \<and> fst (TransformerOccupancyModel_predict df'' horizon
            (foldl transformer_after
               (TransformerOccupancyModel_init zone' sl pl dm nh nl kw') tcalls)) =
       Inl (ValueError ''Model must be fitted before prediction'')"
  by (simp add: prophet_calls_same transformer_calls_same
        ProphetOccupancyModel_init_def TransformerOccupancyModel_init_def
        ProphetOccupancyModel_fit_def TransformerOccupancyModel_fit_def
        ProphetOccupancyModel_predict_def TransformerOccupancyModel_predict_def)

end
